theory Spec2Isabelle
  imports Main "HOL-Library.Word"
begin

section \<open>JavaScript strings\<close>

text \<open>
  A JavaScript string is a finite sequence of 16-bit code units. The literals of
  \<^verbatim>\<open>main.js\<close> are written with \<open>js\<close> for their ASCII part and with the code unit
  itself for an accented letter (U+00E1 is the single code unit \<open>0xE1\<close>).
\<close>

type_synonym cu = "16 word"
type_synonym jsstring = "cu list"

definition js :: "string \<Rightarrow> jsstring" where
  "js s = map of_char s"

text \<open>\<^verbatim>\<open>String.prototype.includes\<close>: the argument occurs as a contiguous substring.\<close>

fun includes_js :: "jsstring \<Rightarrow> jsstring \<Rightarrow> bool" where
  "includes_js [] sub = (sub = [])"
| "includes_js (c # cs) sub = (take (length sub) (c # cs) = sub \<or> includes_js cs sub)"

text \<open>
  The sqlite3 driver binds a string parameter as UTF-8 text and reads a text column back
  as a string. A surrogate pair survives the conversion; a surrogate code unit that is
  not part of a pair does not exist in UTF-8 and becomes U+FFFD. \<open>utf8_text s\<close> is the
  string that comes back for \<open>s\<close>.
\<close>

definition is_high_surrogate :: "cu \<Rightarrow> bool" where
  "is_high_surrogate c = (0xD800 \<le> c \<and> c \<le> 0xDBFF)"

definition is_low_surrogate :: "cu \<Rightarrow> bool" where
  "is_low_surrogate c = (0xDC00 \<le> c \<and> c \<le> 0xDFFF)"

fun utf8_text :: "jsstring \<Rightarrow> jsstring" where
  "utf8_text [] = []"
| "utf8_text [c] = (if is_high_surrogate c \<or> is_low_surrogate c then [0xFFFD] else [c])"
| "utf8_text (c # c' # cs) =
     (if is_high_surrogate c \<and> is_low_surrogate c' then c # c' # utf8_text cs
      else if is_high_surrogate c \<or> is_low_surrogate c then 0xFFFD # utf8_text (c' # cs)
      else c # utf8_text (c' # cs))"

section \<open>Regular expressions of the validators\<close>

text \<open>
  The four patterns of \<^verbatim>\<open>main.js\<close> are built from character classes, concatenation,
  the counted repetition \<^verbatim>\<open>{n}\<close> and \<^verbatim>\<open>+\<close>. \<open>rests r s\<close> lists, in the order a
  backtracking matcher tries them (\<^verbatim>\<open>+\<close> is greedy), the remainders of \<open>s\<close> after a
  match of \<open>r\<close> that starts at the first code unit. All patterns are anchored with
  \<^verbatim>\<open>^\<close> and \<^verbatim>\<open>$\<close> and carry no flag, so \<^verbatim>\<open>.test(s)\<close> holds when some match
  starting at the beginning leaves nothing.
\<close>

datatype regex =
    Class "cu \<Rightarrow> bool"
  | Cat regex regex
  | Repeat nat regex
  | Plus regex

fun iter :: "(jsstring \<Rightarrow> jsstring list) \<Rightarrow> nat \<Rightarrow> jsstring \<Rightarrow> jsstring list" where
  "iter f 0 s = []"
| "iter f (Suc n) s =
     concat (map (\<lambda>t. (if length t < length s then iter f n t else []) @ [t]) (f s))"

primrec rests :: "regex \<Rightarrow> jsstring \<Rightarrow> jsstring list" where
  "rests (Class p) = (\<lambda>s. case s of [] \<Rightarrow> [] | c # cs \<Rightarrow> if p c then [cs] else [])"
| "rests (Cat a b) = (\<lambda>s. concat (map (rests b) (rests a s)))"
| "rests (Repeat n a) = (\<lambda>s. ((\<lambda>ss. concat (map (rests a) ss)) ^^ n) [s])"
| "rests (Plus a) = (\<lambda>s. iter (rests a) (Suc (length s)) s)"

definition test :: "regex \<Rightarrow> jsstring \<Rightarrow> bool" where
  "test r s = ([] \<in> set (rests r s))"

text \<open>\<^verbatim>\<open>\d\<close> without the unicode flag is \<^verbatim>\<open>[0-9]\<close>.\<close>

definition is_digit :: "cu \<Rightarrow> bool" where
  "is_digit c = (0x30 \<le> c \<and> c \<le> 0x39)"

text \<open>\<^verbatim>\<open>\s\<close>: the white space and line terminator code points of ECMAScript.\<close>

definition is_space :: "cu \<Rightarrow> bool" where
  "is_space c =
     (c \<in> set [0x09, 0x0A, 0x0B, 0x0C, 0x0D, 0x20, 0xA0, 0x1680, 0x2028, 0x2029,
                0x202F, 0x205F, 0x3000, 0xFEFF]
      \<or> (0x2000 \<le> c \<and> c \<le> 0x200A))"

text \<open>\<^verbatim>\<open>[^\s@]\<close>\<close>

definition not_space_at :: "cu \<Rightarrow> bool" where
  "not_space_at c = (\<not> is_space c \<and> c \<noteq> 0x40)"

section \<open>Validators (main.js, lines 78 to 81)\<close>

text \<open>\<^verbatim>\<open>/^[^\s@]+@[^\s@]+\.[^\s@]+$/\<close>\<close>

definition validateEmail :: "jsstring \<Rightarrow> bool" where
  "validateEmail email =
     test (Cat (Plus (Class not_space_at))
          (Cat (Class (\<lambda>c. c = 0x40))
          (Cat (Plus (Class not_space_at))
          (Cat (Class (\<lambda>c. c = 0x2E))
               (Plus (Class not_space_at)))))) email"

text \<open>\<^verbatim>\<open>/^\d{11}$/\<close>\<close>

definition validatePhone :: "jsstring \<Rightarrow> bool" where
  "validatePhone phone = test (Repeat 11 (Class is_digit)) phone"

text \<open>\<^verbatim>\<open>/^\d{11}$/\<close>\<close>

definition validateCPF :: "jsstring \<Rightarrow> bool" where
  "validateCPF cpf = test (Repeat 11 (Class is_digit)) cpf"

text \<open>\<^verbatim>\<open>/^\d{14}$/\<close>\<close>

definition validateCNPJ :: "jsstring \<Rightarrow> bool" where
  "validateCNPJ cnpj = test (Repeat 14 (Class is_digit)) cnpj"

section \<open>The store\<close>

text \<open>
  The table \<^verbatim>\<open>pix_records\<close> of the schema (lines 29 to 41): the rows in insertion
  order, the counter that \<^verbatim>\<open>AUTOINCREMENT\<close> keeps (the largest id ever handed out) and,
  to tell whether a handler reached the store at all, the statements run so far. Every
  column is \<^verbatim>\<open>TEXT NOT NULL\<close>; \<open>created_at\<close> is filled by the store from its clock,
  which the insertion takes as an argument. A row holds its texts as \<^verbatim>\<open>db.get\<close>
  returns them; every string bound to a statement goes through \<open>utf8_text\<close>. The store
  is taken to work: the only error it reports is the violation of the \<^verbatim>\<open>UNIQUE\<close>
  constraint. The handlers keep their branches for any other error.
\<close>

record row =
  row_id :: nat
  pix_type :: jsstring
  pix_value :: jsstring
  nome :: jsstring
  cpf :: jsstring
  banco :: jsstring
  agencia :: jsstring
  conta :: jsstring
  created_at :: jsstring

datatype statement =
    SelectRecord jsstring jsstring
  | InsertRecord jsstring jsstring jsstring jsstring jsstring jsstring jsstring
  | DeleteRecord jsstring jsstring

record db =
  pix_records :: "row list"
  seq :: nat
  trace :: "statement list"

definition empty_db :: db where
  "empty_db = \<lparr>pix_records = [], seq = 0, trace = []\<rparr>"

definition matches :: "jsstring \<Rightarrow> jsstring \<Rightarrow> row \<Rightarrow> bool" where
  "matches t v r = (pix_type r = t \<and> pix_value r = v)"

text \<open>\<^verbatim>\<open>UNIQUE(pix_type, pix_value)\<close>\<close>

definition key :: "row \<Rightarrow> jsstring \<times> jsstring" where
  "key r = (pix_type r, pix_value r)"

definition unique_keys :: "db \<Rightarrow> bool" where
  "unique_keys d = distinct (map key (pix_records d))"

text \<open>The message the driver reports when the \<^verbatim>\<open>UNIQUE\<close> constraint rejects a row.\<close>

definition unique_failed :: jsstring where
  "unique_failed =
     js ''SQLITE_CONSTRAINT: UNIQUE constraint failed: pix_records.pix_type, pix_records.pix_value''"

text \<open>
  A statement ends with an error message (\<open>Inl\<close>) or with its result (\<open>Inr\<close>), as the
  callbacks of \<^verbatim>\<open>db.get\<close> and \<^verbatim>\<open>db.run\<close> receive them.

  \<^verbatim>\<open>SELECT * FROM pix_records WHERE pix_type = ? AND pix_value = ?\<close> through
  \<^verbatim>\<open>db.get\<close>: the first matching row, if any.
\<close>

definition db_get :: "jsstring \<Rightarrow> jsstring \<Rightarrow> db \<Rightarrow> (jsstring + row option) \<times> db" where
  "db_get t v d =
     (Inr (find (matches (utf8_text t) (utf8_text v)) (pix_records d)),
      d\<lparr>trace := trace d @ [SelectRecord t v]\<rparr>)"

text \<open>
  \<^verbatim>\<open>INSERT INTO pix_records (pix_type, pix_value, nome, cpf, banco, agencia, conta)\<close>:
  rejected when a row with the same pair exists, and then nothing changes; otherwise the
  row is added under the next id, which is the result (\<^verbatim>\<open>this.lastID\<close>).
\<close>

definition db_run_insert ::
  "jsstring \<Rightarrow> jsstring \<times> jsstring \<times> jsstring \<times> jsstring \<times> jsstring \<times> jsstring \<times> jsstring
     \<Rightarrow> db \<Rightarrow> (jsstring + nat) \<times> db" where
  "db_run_insert now params d =
     (case params of (t, v, n, c, b, a, k) \<Rightarrow>
        let d1 = d\<lparr>trace := trace d @ [InsertRecord t v n c b a k]\<rparr> in
        if list_ex (matches (utf8_text t) (utf8_text v)) (pix_records d)
        then (Inl unique_failed, d1)
        else
          (Inr (Suc (seq d)),
           d1\<lparr>pix_records := pix_records d @
                  [\<lparr>row_id = Suc (seq d), pix_type = utf8_text t, pix_value = utf8_text v,
                    nome = utf8_text n, cpf = utf8_text c, banco = utf8_text b,
                    agencia = utf8_text a, conta = utf8_text k, created_at = now\<rparr>],
                seq := Suc (seq d)\<rparr>))"

text \<open>
  \<^verbatim>\<open>DELETE FROM pix_records WHERE pix_type = ? AND pix_value = ?\<close>: the result is
  the number of rows removed (\<^verbatim>\<open>this.changes\<close>).
\<close>

definition db_run_delete :: "jsstring \<Rightarrow> jsstring \<Rightarrow> db \<Rightarrow> (jsstring + nat) \<times> db" where
  "db_run_delete t v d =
     (Inr (length (filter (matches (utf8_text t) (utf8_text v)) (pix_records d))),
      d\<lparr>pix_records :=
          filter (\<lambda>r. \<not> matches (utf8_text t) (utf8_text v) r) (pix_records d),
        trace := trace d @ [DeleteRecord t v]\<rparr>)"

section \<open>Requests and responses\<close>

text \<open>
  A response is a status code and a JSON body. The body of \<^verbatim>\<open>POST /register\<close> is
  taken with its declared shape. For \<open>accountInfo\<close> and \<open>pixInfo\<close>, \<open>None\<close> stands
  for a falsy value (missing, \<^verbatim>\<open>null\<close>, \<^verbatim>\<open>false\<close>, \<^verbatim>\<open>0\<close>, the empty string) and
  \<open>Some\<close> for an object with the fields that the handler reads. Each field is a JSON
  string, or \<open>None\<close> for a value that \<^verbatim>\<open>!x\<close> treats as missing; the empty string is
  falsy as well. Fields holding a truthy value that is not a string (a number, an array,
  an object) are outside this type.
\<close>

datatype json =
    JString jsstring
  | JNumber nat
  | JObject "(string \<times> json) list"

record response =
  status :: nat
  body :: json

type_synonym field = "jsstring option"

record account_info =
  ai_nome :: field
  ai_cpf :: field
  ai_banco :: field
  ai_agencia :: field
  ai_conta :: field

record pix_info =
  pi_type :: field
  pi_value :: field

record register_body =
  accountInfo :: "account_info option"
  pixInfo :: "pix_info option"

definition truthy :: "field \<Rightarrow> bool" where
  "truthy f = (case f of None \<Rightarrow> False | Some s \<Rightarrow> s \<noteq> [])"

text \<open>\<^verbatim>\<open>res.status(code).json({ error: msg })\<close>\<close>

definition error_response :: "nat \<Rightarrow> jsstring \<Rightarrow> response" where
  "error_response code msg = \<lparr>status = code, body = JObject [(''error'', JString msg)]\<rparr>"

section \<open>Messages\<close>

definition msg_not_found :: jsstring where
  "msg_not_found = js ''Registro n'' @ [0xE3] @ js ''o encontrado''"

definition msg_structure :: jsstring where
  "msg_structure =
     js ''Estrutura de dados inv'' @ [0xE1] @
     js ''lida. Use {accountInfo: {...}, pixInfo: {...}}''"

definition msg_nome :: jsstring where
  "msg_nome = js ''Nome '' @ [0xE9] @ js '' obrigat'' @ [0xF3] @ js ''rio''"

definition msg_cpf :: jsstring where
  "msg_cpf = js ''CPF '' @ [0xE9] @ js '' obrigat'' @ [0xF3] @ js ''rio''"

definition msg_banco :: jsstring where
  "msg_banco = js ''Banco '' @ [0xE9] @ js '' obrigat'' @ [0xF3] @ js ''rio''"

definition msg_agencia :: jsstring where
  "msg_agencia =
     js ''Ag'' @ [0xEA] @ js ''ncia '' @ [0xE9] @ js '' obrigat'' @ [0xF3] @ js ''ria''"

definition msg_conta :: jsstring where
  "msg_conta = js ''Conta '' @ [0xE9] @ js '' obrigat'' @ [0xF3] @ js ''ria''"

definition msg_type :: jsstring where
  "msg_type = js ''Tipo de chave PIX '' @ [0xE9] @ js '' obrigat'' @ [0xF3] @ js ''rio''"

definition msg_value :: jsstring where
  "msg_value = js ''Valor da chave PIX '' @ [0xE9] @ js '' obrigat'' @ [0xF3] @ js ''rio''"

definition msg_cpf_invalid :: jsstring where
  "msg_cpf_invalid =
     js ''CPF do titular '' @ [0xE9] @ js '' inv'' @ [0xE1] @
     js ''lido. Deve ter 11 d'' @ [0xED] @ js ''gitos.''"

definition msg_type_invalid_register :: jsstring where
  "msg_type_invalid_register =
     js ''Tipo de chave PIX inv'' @ [0xE1] @ js ''lido. Use: email, phone, cpf, cnpj, uuid''"

definition msg_value_invalid :: "jsstring \<Rightarrow> jsstring" where
  "msg_value_invalid type =
     js ''Valor da chave PIX ('' @ type @ js '') '' @ [0xE9] @ js '' inv'' @ [0xE1] @ js ''lido''"

definition msg_already_registered :: "jsstring \<Rightarrow> jsstring" where
  "msg_already_registered type =
     js ''Chave PIX ('' @ type @ js '') j'' @ [0xE1] @ js '' registrada''"

definition msg_created :: jsstring where
  "msg_created = js ''Registro criado com sucesso''"

definition msg_type_invalid_delete :: jsstring where
  "msg_type_invalid_delete = js ''Tipo de chave PIX inv'' @ [0xE1] @ js ''lido''"

definition msg_deleted :: jsstring where
  "msg_deleted = js ''Registro exclu'' @ [0xED] @ js ''do com sucesso''"

section \<open>Record lookup: GET /record/:type/:value (lines 116 to 141)\<close>

text \<open>
  The three handlers are the functions registered on the routes. Each takes the store and
  returns its response with the store it leaves. \<^verbatim>\<open>authenticateApiKey\<close>, which reads
  the table \<^verbatim>\<open>banks\<close> before a handler is entered, is not part of them.
\<close>

definition lookup_callback :: "jsstring + row option \<Rightarrow> response" where
  "lookup_callback result =
     (case result of
        Inl err \<Rightarrow> error_response 500 err
      | Inr None \<Rightarrow> error_response 404 msg_not_found
      | Inr (Some r) \<Rightarrow>
          \<lparr>status = 200,
           body = JObject
             [(''id'', JNumber (row_id r)),
              (''accountInfo'',
                 JObject
                   [(''nome'', JString (nome r)), (''cpf'', JString (cpf r)),
                    (''banco'', JString (banco r)), (''agencia'', JString (agencia r)),
                    (''conta'', JString (conta r))]),
              (''pixInfo'',
                 JObject
                   [(''type'', JString (pix_type r)), (''value'', JString (pix_value r))]),
              (''created_at'', JString (created_at r))]\<rparr>)"

definition get_record :: "jsstring \<Rightarrow> jsstring \<Rightarrow> db \<Rightarrow> response \<times> db" where
  "get_record type value d =
     (case db_get type value d of (result, d') \<Rightarrow> (lookup_callback result, d'))"

section \<open>Registration: POST /register (lines 144 to 219)\<close>

text \<open>
  \<^verbatim>\<open>if (!x) return res.status(400).json({ error: msg })\<close>, then the rest of the handler
  with the string that \<open>x\<close> holds.
\<close>

definition required :: "field \<Rightarrow> jsstring \<Rightarrow> (jsstring \<Rightarrow> response + 'a) \<Rightarrow> response + 'a" where
  "required f msg rest =
     (case f of
        None \<Rightarrow> Inl (error_response 400 msg)
      | Some s \<Rightarrow> if s = [] then Inl (error_response 400 msg) else rest s)"

text \<open>
  The \<^verbatim>\<open>switch (type)\<close> of lines 171 to 190; \<open>None\<close> is its \<^verbatim>\<open>default\<close> branch, which
  returns from the handler. \<^verbatim>\<open>validateUUID\<close> is the \<^verbatim>\<open>validate\<close> function of the
  \<^verbatim>\<open>uuid\<close> package, an argument here.
\<close>

definition isValidPix :: "(jsstring \<Rightarrow> bool) \<Rightarrow> jsstring \<Rightarrow> jsstring \<Rightarrow> bool option" where
  "isValidPix validateUUID type value =
     (if type = js ''email'' then Some (validateEmail value)
      else if type = js ''phone'' then Some (validatePhone value)
      else if type = js ''cpf'' then Some (validateCPF value)
      else if type = js ''cnpj'' then Some (validateCNPJ value)
      else if type = js ''uuid'' then Some (validateUUID value)
      else None)"

text \<open>
  Lines 145 to 202, up to the call of \<^verbatim>\<open>db.run\<close>: either the response of the check
  that failed, or the parameters \<^verbatim>\<open>[type, value, nome, cpf, banco, agencia, conta]\<close> of
  the insertion.
\<close>

definition register_validate ::
  "(jsstring \<Rightarrow> bool) \<Rightarrow> register_body \<Rightarrow>
   response + (jsstring \<times> jsstring \<times> jsstring \<times> jsstring \<times> jsstring \<times> jsstring \<times> jsstring)" where
  "register_validate validateUUID b =
     (case accountInfo b of
        None \<Rightarrow> Inl (error_response 400 msg_structure)
      | Some ai \<Rightarrow>
     (case pixInfo b of
        None \<Rightarrow> Inl (error_response 400 msg_structure)
      | Some pi \<Rightarrow>
          required (ai_nome ai) msg_nome (\<lambda>nome.
          required (ai_cpf ai) msg_cpf (\<lambda>cpf.
          required (ai_banco ai) msg_banco (\<lambda>banco.
          required (ai_agencia ai) msg_agencia (\<lambda>agencia.
          required (ai_conta ai) msg_conta (\<lambda>conta.
          required (pi_type pi) msg_type (\<lambda>type.
          required (pi_value pi) msg_value (\<lambda>value.
            if \<not> validateCPF cpf then Inl (error_response 400 msg_cpf_invalid)
            else
              (case isValidPix validateUUID type value of
                 None \<Rightarrow> Inl (error_response 400 msg_type_invalid_register)
               | Some ok \<Rightarrow>
                   if \<not> ok then Inl (error_response 400 (msg_value_invalid type))
                   else Inr (type, value, nome, cpf, banco, agencia, conta)))))))))))"

text \<open>The callback of \<^verbatim>\<open>db.run\<close>, lines 204 to 218.\<close>

definition register_callback ::
  "jsstring \<times> jsstring \<times> jsstring \<times> jsstring \<times> jsstring \<times> jsstring \<times> jsstring
     \<Rightarrow> jsstring + nat \<Rightarrow> response" where
  "register_callback params result =
     (let (type, value, nome, cpf, banco, agencia, conta) = params in
        (case result of
           Inl err \<Rightarrow>
             if includes_js err (js ''UNIQUE constraint failed'')
             then error_response 409 (msg_already_registered type)
             else error_response 500 err
         | Inr lastID \<Rightarrow>
             \<lparr>status = 201,
              body = JObject
                [(''id'', JNumber lastID),
                 (''accountInfo'',
                    JObject
                      [(''nome'', JString nome), (''cpf'', JString cpf),
                       (''banco'', JString banco), (''agencia'', JString agencia),
                       (''conta'', JString conta)]),
                 (''pixInfo'', JObject [(''type'', JString type), (''value'', JString value)]),
                 (''message'', JString msg_created)]\<rparr>))"

definition post_register ::
  "(jsstring \<Rightarrow> bool) \<Rightarrow> jsstring \<Rightarrow> register_body \<Rightarrow> db \<Rightarrow> response \<times> db" where
  "post_register validateUUID now b d =
     (case register_validate validateUUID b of
        Inl r \<Rightarrow> (r, d)
      | Inr params \<Rightarrow>
          (case db_run_insert now params d of
             (result, d') \<Rightarrow> (register_callback params result, d')))"

section \<open>Deletion: DELETE /record/:type/:value (lines 222 to 248)\<close>

definition validTypes :: "jsstring list" where
  "validTypes = [js ''email'', js ''phone'', js ''cpf'', js ''cnpj'', js ''uuid'']"

definition delete_callback :: "jsstring + nat \<Rightarrow> response" where
  "delete_callback result =
     (case result of
        Inl err \<Rightarrow> error_response 500 err
      | Inr changes \<Rightarrow>
          if changes = 0 then error_response 404 msg_not_found
          else
            \<lparr>status = 200,
             body = JObject
               [(''message'', JString msg_deleted), (''deletedCount'', JNumber changes)]\<rparr>)"

definition delete_record :: "jsstring \<Rightarrow> jsstring \<Rightarrow> db \<Rightarrow> response \<times> db" where
  "delete_record type value d =
     (if type \<notin> set validTypes
      then (error_response 400 msg_type_invalid_delete, d)
      else
        (case db_run_delete type value d of
           (result, d') \<Rightarrow> (delete_callback result, d')))"

section \<open>Reachable stores\<close>

text \<open>
  The stores that the three handlers produce from the empty table, whatever the requests,
  the clock and the UUID validator.
\<close>

inductive reachable :: "db \<Rightarrow> bool" where
  reachable_empty: "reachable empty_db"
| reachable_register: "reachable d \<Longrightarrow> reachable (snd (post_register validateUUID now b d))"
| reachable_delete: "reachable d \<Longrightarrow> reachable (snd (delete_record type value d))"
| reachable_lookup: "reachable d \<Longrightarrow> reachable (snd (get_record type value d))"

section \<open>The validation sequence as the specification lists it\<close>

text \<open>
  Section 4.4 of the specification: both objects present; each of nome, cpf, banco,
  agencia, conta, type, value present; the holder's cpf in CPF format; the type one of the
  five recognised ones; the value accepted by the validator which the type selects. Each
  check is a predicate on the whole body together with the message sent when it is the
  first to fail. \<open>first_failure\<close> is that message, if a check fails.
\<close>

definition account_field :: "(account_info \<Rightarrow> field) \<Rightarrow> register_body \<Rightarrow> field" where
  "account_field f b = (case accountInfo b of None \<Rightarrow> None | Some ai \<Rightarrow> f ai)"

definition pix_field :: "(pix_info \<Rightarrow> field) \<Rightarrow> register_body \<Rightarrow> field" where
  "pix_field f b = (case pixInfo b of None \<Rightarrow> None | Some pi \<Rightarrow> f pi)"

definition validator_table :: "(jsstring \<Rightarrow> bool) \<Rightarrow> (jsstring \<times> (jsstring \<Rightarrow> bool)) list" where
  "validator_table validateUUID =
     [(js ''email'', validateEmail), (js ''phone'', validatePhone), (js ''cpf'', validateCPF),
      (js ''cnpj'', validateCNPJ), (js ''uuid'', validateUUID)]"

definition validation_sequence ::
  "(jsstring \<Rightarrow> bool) \<Rightarrow> ((register_body \<Rightarrow> bool) \<times> (register_body \<Rightarrow> jsstring)) list" where
  "validation_sequence validateUUID =
     [(\<lambda>b. accountInfo b \<noteq> None \<and> pixInfo b \<noteq> None, \<lambda>b. msg_structure),
      (\<lambda>b. truthy (account_field ai_nome b), \<lambda>b. msg_nome),
      (\<lambda>b. truthy (account_field ai_cpf b), \<lambda>b. msg_cpf),
      (\<lambda>b. truthy (account_field ai_banco b), \<lambda>b. msg_banco),
      (\<lambda>b. truthy (account_field ai_agencia b), \<lambda>b. msg_agencia),
      (\<lambda>b. truthy (account_field ai_conta b), \<lambda>b. msg_conta),
      (\<lambda>b. truthy (pix_field pi_type b), \<lambda>b. msg_type),
      (\<lambda>b. truthy (pix_field pi_value b), \<lambda>b. msg_value),
      (\<lambda>b. case account_field ai_cpf b of None \<Rightarrow> False | Some c \<Rightarrow> validateCPF c,
       \<lambda>b. msg_cpf_invalid),
      (\<lambda>b. case pix_field pi_type b of
              None \<Rightarrow> False
            | Some t \<Rightarrow> map_of (validator_table validateUUID) t \<noteq> None,
       \<lambda>b. msg_type_invalid_register),
      (\<lambda>b. case (pix_field pi_type b, pix_field pi_value b) of
              (Some t, Some v) \<Rightarrow>
                (case map_of (validator_table validateUUID) t of
                   None \<Rightarrow> False
                 | Some validator \<Rightarrow> validator v)
            | _ \<Rightarrow> False,
       \<lambda>b. msg_value_invalid (case pix_field pi_type b of None \<Rightarrow> [] | Some t \<Rightarrow> t))]"

definition first_failure :: "(jsstring \<Rightarrow> bool) \<Rightarrow> register_body \<Rightarrow> jsstring option" where
  "first_failure validateUUID b =
     map_option (\<lambda>c. snd c b) (find (\<lambda>c. \<not> fst c b) (validation_sequence validateUUID))"

section \<open>Bootstrap: the callback of the database connection (lines 10 to 75)\<close>

text \<open>
  The callback receives the error of opening the store, if any, and reads
  \<^verbatim>\<open>process.env.X_API_KEY\<close>. Its result is what it does, in program order: lines
  written to the console, statements handed to \<^verbatim>\<open>db.run\<close> inside the
  \<^verbatim>\<open>db.serialize\<close> block, and \<^verbatim>\<open>process.exit\<close>, after which nothing follows. The
  callbacks given to \<^verbatim>\<open>db.run\<close> only log and run later; they are left out.
\<close>

datatype sql_statement =
    CreateTableBanks
  | CreateTablePixRecords
  | InsertDefaultBank jsstring jsstring

datatype effect =
    ConsoleError "jsstring list"
  | ConsoleLog "jsstring list"
  | DbRun sql_statement
  | ProcessExit nat

text \<open>Lines 53 to 56, entered when \<^verbatim>\<open>!DEFAULT_API_KEY\<close> holds.\<close>

definition key_missing :: "effect list" where
  "key_missing =
     [ConsoleError [js ''Erro: X_API_KEY n'' @ [0xE3] @ js ''o definida no .env''],
      ProcessExit 1]"

definition bootstrap :: "jsstring option \<Rightarrow> field \<Rightarrow> effect list" where
  "bootstrap err X_API_KEY =
     (case err of
        Some message \<Rightarrow> [ConsoleError [js ''Erro ao conectar ao banco:'', message]]
      | None \<Rightarrow>
          [ConsoleLog [js ''Conectado ao SQLite''],
           DbRun CreateTableBanks,
           DbRun CreateTablePixRecords] @
          (case X_API_KEY of
             None \<Rightarrow> key_missing
           | Some DEFAULT_API_KEY \<Rightarrow>
               if DEFAULT_API_KEY = [] then key_missing
               else [DbRun (InsertDefaultBank DEFAULT_API_KEY DEFAULT_API_KEY)]))"

text \<open>
  \<^verbatim>\<open>db.run\<close> hands its statement to the queue of the driver, which runs queued
  statements only after the callback that queued them has returned. \<^verbatim>\<open>process.exit\<close>
  ends the process inside the callback, so a statement queued in a callback that exits is
  never run. \<open>statements_run\<close> lists the statements the store gets to run.

  The reading of "terminates with a non-zero exit, with no partial startup": the process
  exits, the code is not 0, and the store has run no statement.
\<close>

fun exit_status :: "effect list \<Rightarrow> nat option" where
  "exit_status [] = None"
| "exit_status (ProcessExit code # es) = Some code"
| "exit_status (e # es) = exit_status es"

fun statements_queued :: "effect list \<Rightarrow> sql_statement list" where
  "statements_queued [] = []"
| "statements_queued (ProcessExit code # es) = []"
| "statements_queued (DbRun q # es) = q # statements_queued es"
| "statements_queued (e # es) = statements_queued es"

definition statements_run :: "effect list \<Rightarrow> sql_statement list" where
  "statements_run es =
     (case exit_status es of
        None \<Rightarrow> statements_queued es
      | Some code \<Rightarrow> [])"

definition fatal_without_partial_startup :: "effect list \<Rightarrow> bool" where
  "fatal_without_partial_startup es =
     (case exit_status es of
        None \<Rightarrow> False
      | Some code \<Rightarrow> code \<noteq> 0 \<and> statements_run es = [])"

section \<open>Example requests\<close>

text \<open>
  The request of section 8 of the specification with a well-formed e-mail key, the same
  request with the value \<^verbatim>\<open>not-an-email\<close>, and the store after the first one has been
  registered in the empty store.
\<close>

definition example_body :: register_body where
  "example_body =
     \<lparr>accountInfo = Some \<lparr>ai_nome = Some (js ''A''), ai_cpf = Some (js ''12345678901''),
                            ai_banco = Some (js ''B''), ai_agencia = Some (js ''1''),
                            ai_conta = Some (js ''2'')\<rparr>,
      pixInfo = Some \<lparr>pi_type = Some (js ''email''), pi_value = Some (js ''a@b.c'')\<rparr>\<rparr>"

definition example_bad_body :: register_body where
  "example_bad_body =
     \<lparr>accountInfo = Some \<lparr>ai_nome = Some (js ''A''), ai_cpf = Some (js ''12345678901''),
                            ai_banco = Some (js ''B''), ai_agencia = Some (js ''1''),
                            ai_conta = Some (js ''2'')\<rparr>,
      pixInfo = Some \<lparr>pi_type = Some (js ''email''),
                       pi_value = Some (js ''not-an-email'')\<rparr>\<rparr>"



definition example_now :: jsstring where
  "example_now = js ''2024-01-01 00:00:00''"

definition example_row :: row where
  "example_row =
     \<lparr>row_id = 1, pix_type = js ''email'', pix_value = js ''a@b.c'', nome = js ''A'',
      cpf = js ''12345678901'', banco = js ''B'', agencia = js ''1'', conta = js ''2'',
      created_at = example_now\<rparr>"

definition example_db :: db where
  "example_db =
     \<lparr>pix_records = [example_row], seq = 1,
      trace = [InsertRecord (js ''email'') (js ''a@b.c'') (js ''A'') (js ''12345678901'')
                 (js ''B'') (js ''1'') (js ''2'')]\<rparr>"

section \<open>Properties of the matcher\<close>

lemma funpow_class_step:
  "((\<lambda>ss. concat (map (rests (Class p)) ss)) ^^ n) [s] =
     (if n \<le> length s \<and> list_all p (take n s) then [drop n s] else [])"
proof (induction n)
  case 0
  show ?case by simp
next
  case (Suc n)
  let ?F = "\<lambda>ss. concat (map (rests (Class p)) ss)"
  have step: "(?F ^^ Suc n) [s] = ?F ((?F ^^ n) [s])"
    by simp
  show ?case
  proof (cases "n < length s")
    case True
    then have t: "take (Suc n) s = take n s @ [s ! n]"
      by (simp add: take_Suc_conv_app_nth)
    from True have d: "drop n s = s ! n # drop (Suc n) s"
      by (simp add: Cons_nth_drop_Suc)
    from True show ?thesis
      unfolding step Suc.IH by (simp add: t d)
  next
    case False
    then show ?thesis
      unfolding step Suc.IH by simp
  qed
qed

lemma rests_Repeat_Class:
  "rests (Repeat n (Class p)) s =
     (if n \<le> length s \<and> list_all p (take n s) then [drop n s] else [])"
  by (simp only: rests.simps(3) funpow_class_step)

lemma test_Repeat_Class:
  "test (Repeat n (Class p)) s = (length s = n \<and> list_all p s)"
  unfolding test_def rests_Repeat_Class by auto

section \<open>Claims about the validators\<close>

text \<open>
  C7: for every string \<open>s\<close>, \<open>validateCPF s\<close> holds if and only if \<open>s\<close> consists of
  exactly 11 digits; the ten-digit string 1234567890 is rejected and the eleven-digit
  string 12345678901 is accepted. \<open>validateCPF\<close> is a function of its argument alone,
  defined on every string.
\<close>

theorem validateCPF_exactly_11_digits:
  "validateCPF s = (length s = 11 \<and> list_all is_digit s)
   \<and> validateCPF (js ''1234567890'') = False
   \<and> validateCPF (js ''12345678901'') = True"
  by (simp add: validateCPF_def test_Repeat_Class js_def is_digit_def)

text \<open>
  C10: the phone validator and the CPF validator are the same function on strings:
  both accept exactly the strings of 11 digits.
\<close>

theorem validatePhone_eq_validateCPF:
  "validatePhone s = validateCPF s
   \<and> validatePhone s = (length s = 11 \<and> list_all is_digit s)"
  by (simp add: validatePhone_def validateCPF_def test_Repeat_Class)

section \<open>Facts about the store and the handlers\<close>

lemma member_validTypes:
  "(t \<in> set validTypes) =
     (t \<in> {js ''email'', js ''phone'', js ''cpf'', js ''cnpj'', js ''uuid''})"
  by (simp add: validTypes_def)

lemma utf8_text_plain:
  "\<forall>c\<in>set s. \<not> is_high_surrogate c \<and> \<not> is_low_surrogate c \<Longrightarrow> utf8_text s = s"
  by (induction s rule: utf8_text.induct) auto

lemma utf8_text_validTypes: "t \<in> set validTypes \<Longrightarrow> utf8_text t = t"
  by (rule utf8_text_plain)
     (auto simp: validTypes_def js_def is_high_surrogate_def is_low_surrogate_def)

lemma isValidPix_validTypes: "isValidPix validateUUID t v = Some ok \<Longrightarrow> t \<in> set validTypes"
  by (auto simp: isValidPix_def validTypes_def split: if_splits)

lemma includes_unique_failed:
  "includes_js unique_failed (js ''UNIQUE constraint failed'')"
  by (simp add: unique_failed_def js_def)

lemma find_filter_not: "find P (filter (\<lambda>x. \<not> P x) xs) = None"
  by (induction xs) auto


lemma matches_key: "matches t v r = (key r = (t, v))"
  by (auto simp: matches_def key_def)

lemma length_filter_key:
  "distinct (map key rs) \<Longrightarrow> r \<in> set rs \<Longrightarrow> length (filter (\<lambda>x. key x = key r) rs) = 1"
proof (induction rs)
  case Nil
  then show ?case by simp
next
  case (Cons x rs)
  show ?case
  proof (cases "key x = key r")
    case True
    with Cons.prems have "\<forall>y\<in>set rs. key y \<noteq> key r"
      by (auto simp: image_iff)
    then have "filter (\<lambda>y. key y = key r) rs = []"
      by (simp add: filter_empty_conv)
    with True show ?thesis by simp
  next
    case False
    with Cons show ?thesis by auto
  qed
qed

lemma unique_keys_insert: "unique_keys d \<Longrightarrow> unique_keys (snd (db_run_insert now params d))"
  by (cases params)
     (auto simp: unique_keys_def db_run_insert_def Let_def list_ex_iff matches_def key_def
        image_iff)

lemma unique_keys_delete: "unique_keys d \<Longrightarrow> unique_keys (snd (db_run_delete t v d))"
  by (simp add: unique_keys_def db_run_delete_def distinct_map_filter)

lemma unique_keys_get: "unique_keys d \<Longrightarrow> unique_keys (snd (db_get t v d))"
  by (simp add: unique_keys_def db_get_def)

lemma unique_keys_post_register:
  "unique_keys d \<Longrightarrow> unique_keys (snd (post_register validateUUID now b d))"
  by (simp add: post_register_def case_prod_unfold unique_keys_insert split: sum.splits)

lemma unique_keys_delete_record:
  "unique_keys d \<Longrightarrow> unique_keys (snd (delete_record type value d))"
  by (simp add: delete_record_def case_prod_unfold unique_keys_delete)

lemma unique_keys_get_record:
  "unique_keys d \<Longrightarrow> unique_keys (snd (get_record type value d))"
  by (simp add: get_record_def case_prod_unfold unique_keys_get)

text \<open>The registration handler against the validation sequence of the specification.\<close>

lemma required_if:
  "required f msg rest = (if truthy f then rest (the f) else Inl (error_response 400 msg))"
  by (auto simp: required_def truthy_def split: option.splits)

lemma truthy_case: "truthy f \<Longrightarrow> (case f of None \<Rightarrow> z | Some s \<Rightarrow> g s) = g (the f)"
  by (auto simp: truthy_def split: option.splits)

lemma isValidPix_table:
  "isValidPix validateUUID t v =
     map_option (\<lambda>f. f v) (map_of (validator_table validateUUID) t)"
  by (simp add: isValidPix_def validator_table_def)

lemma messages_distinct:
  "distinct (map (\<lambda>c. snd c b) (validation_sequence validateUUID))"
  by (simp add: validation_sequence_def msg_structure_def msg_nome_def msg_cpf_def
      msg_banco_def msg_agencia_def msg_conta_def msg_type_def msg_value_def
      msg_cpf_invalid_def msg_type_invalid_register_def msg_value_invalid_def js_def)

lemma register_validate_first_failure:
  "register_validate validateUUID b =
     (case first_failure validateUUID b of
        Some msg \<Rightarrow> Inl (error_response 400 msg)
      | None \<Rightarrow>
          Inr (the (pix_field pi_type b), the (pix_field pi_value b),
               the (account_field ai_nome b), the (account_field ai_cpf b),
               the (account_field ai_banco b), the (account_field ai_agencia b),
               the (account_field ai_conta b)))"
proof (cases "accountInfo b")
  case None
  then show ?thesis
    by (simp add: register_validate_def first_failure_def validation_sequence_def)
next
  case (Some ai)
  note ai = this
  show ?thesis
  proof (cases "pixInfo b")
    case None
    with ai show ?thesis
      by (simp add: register_validate_def first_failure_def validation_sequence_def)
  next
    case (Some pi)
    with ai show ?thesis
      by (simp add: register_validate_def first_failure_def validation_sequence_def
          account_field_def pix_field_def required_if truthy_case isValidPix_table
          split: option.splits)
  qed
qed


lemma register_validate_Inr:
  assumes "register_validate validateUUID b = Inr (t, v, n, c, bk, a, k)"
  shows "accountInfo b = Some \<lparr>ai_nome = Some n, ai_cpf = Some c, ai_banco = Some bk,
                                ai_agencia = Some a, ai_conta = Some k\<rparr>
         \<and> pixInfo b = Some \<lparr>pi_type = Some t, pi_value = Some v\<rparr>
         \<and> validateCPF c \<and> isValidPix validateUUID t v = Some True
         \<and> n \<noteq> [] \<and> c \<noteq> [] \<and> bk \<noteq> [] \<and> a \<noteq> [] \<and> k \<noteq> [] \<and> t \<noteq> [] \<and> v \<noteq> []"
proof -
  from assms obtain ai pi where ai: "accountInfo b = Some ai" and pi: "pixInfo b = Some pi"
    by (auto simp: register_validate_def split: option.splits)
  show ?thesis
    using assms ai pi
    by (cases ai; cases pi)
       (auto simp: register_validate_def required_def split: option.splits if_splits)
qed

text \<open>The example requests, evaluated.\<close>

lemma example_validate:
  "register_validate (\<lambda>u. False) example_body =
     Inr (js ''email'', js ''a@b.c'', js ''A'', js ''12345678901'', js ''B'', js ''1'', js ''2'')"
  by code_simp

lemma example_register:
  "post_register (\<lambda>u. False) example_now example_body empty_db =
     (\<lparr>status = 201,
       body = JObject
         [(''id'', JNumber 1),
          (''accountInfo'',
             JObject
               [(''nome'', JString (js ''A'')), (''cpf'', JString (js ''12345678901'')),
                (''banco'', JString (js ''B'')), (''agencia'', JString (js ''1'')),
                (''conta'', JString (js ''2''))]),
          (''pixInfo'',
             JObject [(''type'', JString (js ''email'')), (''value'', JString (js ''a@b.c''))]),
          (''message'', JString msg_created)]\<rparr>,
      example_db)"
  by code_simp

lemma example_utf8_text:
  "utf8_text (js ''A'') = js ''A'' \<and> utf8_text (js ''12345678901'') = js ''12345678901''
   \<and> utf8_text (js ''B'') = js ''B'' \<and> utf8_text (js ''1'') = js ''1''
   \<and> utf8_text (js ''2'') = js ''2'' \<and> utf8_text (js ''a@b.c'') = js ''a@b.c''"
  by code_simp

lemma example_bad_first_failure:
  "first_failure (\<lambda>u. False) example_bad_body = Some (msg_value_invalid (js ''email''))"
  by code_simp

lemma example_row_stored:
  "example_row \<in> set (pix_records example_db)
   \<and> pix_type example_row = js ''email''
   \<and> pix_value example_row = utf8_text (js ''a@b.c'')"
  by (simp add: example_db_def example_row_def example_utf8_text)

lemma example_db_unique: "unique_keys example_db"
  by (simp add: unique_keys_def example_db_def)

lemma example_delete:
  "delete_record (js ''email'') (js ''a@b.c'') example_db =
     (\<lparr>status = 200,
       body = JObject [(''message'', JString msg_deleted), (''deletedCount'', JNumber 1)]\<rparr>,
      \<lparr>pix_records = [], seq = 1,
       trace = trace example_db @ [DeleteRecord (js ''email'') (js ''a@b.c'')]\<rparr>)"
  by code_simp

section \<open>Claims about the store and the handlers\<close>

text \<open>
  C1: in every store reachable from the empty one through registrations and deletions
  (and lookups), no two rows of \<open>pix_records\<close> share the pair of \<open>pix_type\<close> and
  \<open>pix_value\<close>.
\<close>

theorem reachable_unique_keys: "reachable d \<Longrightarrow> unique_keys d"
proof (induction rule: reachable.induct)
  case reachable_empty
  show ?case by (simp add: unique_keys_def empty_db_def)
next
  case (reachable_register d validateUUID now b)
  then show ?case by (simp add: unique_keys_post_register)
next
  case (reachable_delete d type "value")
  then show ?case by (simp add: unique_keys_delete_record)
next
  case (reachable_lookup d type "value")
  then show ?case by (simp add: unique_keys_get_record)
qed

theorem reachable_unique_keys_witness:
  "reachable example_db \<and> distinct (map key (pix_records example_db))"
proof -
  have "reachable (snd (post_register (\<lambda>u. False) example_now example_body empty_db))"
    by (rule reachable_register [OF reachable_empty])
  then have r: "reachable example_db"
    by (simp add: example_register)
  from reachable_unique_keys [OF r] r show ?thesis
    by (simp add: unique_keys_def)
qed




text \<open>
  C3: when the body passes every validation, with the key \<open>type\<close>, \<open>value\<close>, and a
  row with this pair is in the store (the value as the store keeps text, which is
  \<open>value\<close> itself unless it holds an unpaired surrogate), the registration answers 409
  with the error "Chave PIX (type) ja registrada" (with the accented a of the source), and
  the table and its id counter are as before.
\<close>

theorem register_duplicate_conflict:
  assumes valid: "register_validate validateUUID b = Inr (type, value, n, c, bk, a, k)"
    and r: "r \<in> set (pix_records d) \<and> pix_type r = type \<and> pix_value r = utf8_text value"
  shows "fst (post_register validateUUID now b d) =
           \<lparr>status = 409,
            body = JObject
              [(''error'',
                JString (js ''Chave PIX ('' @ type @ js '') j'' @ [0xE1] @ js '' registrada''))]\<rparr>
         \<and> pix_records (snd (post_register validateUUID now b d)) = pix_records d
         \<and> seq (snd (post_register validateUUID now b d)) = seq d"
proof -
  from register_validate_Inr [OF valid]
  have "isValidPix validateUUID type value = Some True"
    by simp
  then have "utf8_text type = type"
    by (intro utf8_text_validTypes isValidPix_validTypes)
  with r have "list_ex (matches (utf8_text type) (utf8_text value)) (pix_records d)"
    by (auto simp: list_ex_iff matches_def)
  with valid show ?thesis
    by (simp add: post_register_def db_run_insert_def register_callback_def
        includes_unique_failed error_response_def msg_already_registered_def)
qed

theorem register_duplicate_conflict_witness:
  "register_validate (\<lambda>u. False) example_body =
     Inr (js ''email'', js ''a@b.c'', js ''A'', js ''12345678901'', js ''B'', js ''1'', js ''2'')
   \<and> fst (post_register (\<lambda>u. False) example_now example_body example_db) =
       \<lparr>status = 409,
        body = JObject
          [(''error'',
            JString
              (js ''Chave PIX ('' @ js ''email'' @ js '') j'' @ [0xE1] @ js '' registrada''))]\<rparr>
   \<and> pix_records (snd (post_register (\<lambda>u. False) example_now example_body example_db)) =
       pix_records example_db
   \<and> seq (snd (post_register (\<lambda>u. False) example_now example_body example_db)) =
       seq example_db"
  using example_validate
    register_duplicate_conflict [OF example_validate example_row_stored, of example_now]
  by (rule conjI)

text \<open>
  C4: when a deletion answers 200, the lookup of the same type and value in the store the
  deletion left answers 404 with the error "Registro nao encontrado" (with the accented a
  of the source).
\<close>

theorem delete_then_lookup_not_found:
  assumes "status (fst (delete_record type value d)) = 200"
  shows "fst (get_record type value (snd (delete_record type value d))) =
           \<lparr>status = 404, body = JObject [(''error'', JString msg_not_found)]\<rparr>"
  using assms
  by (auto simp: delete_record_def db_run_delete_def get_record_def db_get_def
      lookup_callback_def error_response_def find_filter_not split: if_splits)

theorem delete_then_lookup_not_found_witness:
  "status (fst (delete_record (js ''email'') (js ''a@b.c'') example_db)) = 200
   \<and> fst (get_record (js ''email'') (js ''a@b.c'')
            (snd (delete_record (js ''email'') (js ''a@b.c'') example_db))) =
       \<lparr>status = 404, body = JObject [(''error'', JString msg_not_found)]\<rparr>"
proof -
  have ok: "status (fst (delete_record (js ''email'') (js ''a@b.c'') example_db)) = 200"
    by (simp add: example_delete)
  from ok delete_then_lookup_not_found [OF ok] show ?thesis
    by (rule conjI)
qed

text \<open>
  C5: the registration handler applies the checks of the validation sequence in their
  order. When some check fails, the response is the 400 error with the message of the
  first check that fails and the store is returned as it was received, with no statement
  run; when none fails, the handler runs the insertion. The messages of the eleven checks
  are pairwise distinct.
\<close>

theorem validation_first_failure_wins:
  "(case first_failure validateUUID b of
      Some msg \<Rightarrow>
        post_register validateUUID now b d =
          (\<lparr>status = 400, body = JObject [(''error'', JString msg)]\<rparr>, d)
    | None \<Rightarrow>
        (\<exists>type value n c bk a k.
           trace (snd (post_register validateUUID now b d)) =
             trace d @ [InsertRecord type value n c bk a k]))
   \<and> distinct (map (\<lambda>c. snd c b) (validation_sequence validateUUID))"
  by (simp add: messages_distinct post_register_def register_validate_first_failure
      error_response_def db_run_insert_def Let_def split: option.splits)

theorem validation_first_failure_wins_witness:
  "first_failure (\<lambda>u. False) example_bad_body = Some (msg_value_invalid (js ''email''))
   \<and> post_register (\<lambda>u. False) example_now example_bad_body example_db =
       (\<lparr>status = 400,
         body = JObject [(''error'', JString (msg_value_invalid (js ''email'')))]\<rparr>,
        example_db)"
  using validation_first_failure_wins
    [where validateUUID = "\<lambda>u. False" and b = example_bad_body and now = example_now
       and d = example_db]
  by (simp add: example_bad_first_failure)

text \<open>
  C6: in a store where the pairs of \<open>pix_type\<close> and \<open>pix_value\<close> are unique, the
  deletion of a recognised type and a value that a row holds (as the store keeps text,
  which is \<open>value\<close> itself unless it holds an unpaired surrogate) answers 200 with the
  fields \<open>message\<close> and \<open>deletedCount\<close>, and \<open>deletedCount\<close> is 1.
\<close>

theorem delete_present_count_one:
  assumes "unique_keys d"
    and "type \<in> {js ''email'', js ''phone'', js ''cpf'', js ''cnpj'', js ''uuid''}"
    and "r \<in> set (pix_records d) \<and> pix_type r = type \<and> pix_value r = utf8_text value"
  shows "fst (delete_record type value d) =
           \<lparr>status = 200,
            body = JObject
              [(''message'', JString msg_deleted), (''deletedCount'', JNumber 1)]\<rparr>"
proof -
  from assms(2) have ty: "utf8_text type = type"
    by (intro utf8_text_validTypes) (simp add: member_validTypes)
  have "key r = (type, utf8_text value)" using assms by (simp add: key_def)
  with length_filter_key [of "pix_records d" r] assms
  have "length (filter (matches type (utf8_text value)) (pix_records d)) = 1"
    by (simp add: unique_keys_def matches_key [abs_def])
  with assms(2) ty show ?thesis
    by (simp add: delete_record_def member_validTypes db_run_delete_def delete_callback_def)
qed

theorem delete_present_count_one_witness:
  "unique_keys example_db
   \<and> js ''email'' \<in> {js ''email'', js ''phone'', js ''cpf'', js ''cnpj'', js ''uuid''}
   \<and> example_row \<in> set (pix_records example_db)
   \<and> fst (delete_record (js ''email'') (js ''a@b.c'') example_db) =
       \<lparr>status = 200,
        body = JObject
          [(''message'', JString msg_deleted), (''deletedCount'', JNumber 1)]\<rparr>"
proof -
  have t: "js ''email'' \<in> {js ''email'', js ''phone'', js ''cpf'', js ''cnpj'', js ''uuid''}"
    by simp
  from delete_present_count_one [OF example_db_unique t example_row_stored]
    example_db_unique t example_row_stored
  show ?thesis by simp
qed

text \<open>
  C8: for a type that is none of email, phone, cpf, cnpj, uuid, and any value, the
  deletion answers 400 with the error "Tipo de chave PIX invalido" (with the accented a of
  the source) and returns the store as it received it: no statement is run and nothing
  changes.
\<close>

theorem delete_unknown_type_rejected:
  assumes "type \<notin> {js ''email'', js ''phone'', js ''cpf'', js ''cnpj'', js ''uuid''}"
  shows "delete_record type value d =
           (\<lparr>status = 400, body = JObject [(''error'', JString msg_type_invalid_delete)]\<rparr>,
            d)"
  using assms by (simp add: delete_record_def member_validTypes error_response_def)

theorem delete_unknown_type_rejected_witness:
  "js ''bitcoin'' \<notin> {js ''email'', js ''phone'', js ''cpf'', js ''cnpj'', js ''uuid''}
   \<and> delete_record (js ''bitcoin'') (js ''a@b.c'') example_db =
       (\<lparr>status = 400, body = JObject [(''error'', JString msg_type_invalid_delete)]\<rparr>,
        example_db)"
proof -
  have t: "js ''bitcoin'' \<notin> {js ''email'', js ''phone'', js ''cpf'', js ''cnpj'', js ''uuid''}"
    by (simp add: js_def)
  from t delete_unknown_type_rejected [OF t] show ?thesis
    by (rule conjI)
qed

section \<open>Claim about the bootstrap\<close>

text \<open>
  C9, as the code has it: when the store has been opened and \<^verbatim>\<open>X_API_KEY\<close> is absent
  or empty, the bootstrap logs the configuration error and exits with code 1, and the
  store has run no statement: the two table creations queued before the variable is read
  are never run, and the seed insertion is never queued.
\<close>

theorem bootstrap_missing_key:
  "\<not> truthy X_API_KEY \<longrightarrow>
     fatal_without_partial_startup (bootstrap None X_API_KEY)
     \<and> exit_status (bootstrap None X_API_KEY) = Some 1
     \<and> statements_run (bootstrap None X_API_KEY) = []
     \<and> bootstrap None X_API_KEY =
         [ConsoleLog [js ''Conectado ao SQLite''],
          DbRun CreateTableBanks,
          DbRun CreateTablePixRecords,
          ConsoleError [js ''Erro: X_API_KEY n'' @ [0xE3] @ js ''o definida no .env''],
          ProcessExit 1]"
  by (simp add: bootstrap_def key_missing_def truthy_def fatal_without_partial_startup_def
      statements_run_def split: option.splits)

theorem bootstrap_missing_key_witness:
  "\<not> truthy None
   \<and> fatal_without_partial_startup (bootstrap None None)
   \<and> exit_status (bootstrap None None) = Some 1
   \<and> statements_run (bootstrap None None) = []"
proof -
  have t: "\<not> truthy None"
    by (simp add: truthy_def)
  with bootstrap_missing_key [of None] show ?thesis
    by blast
qed

text \<open>
  C9 as stated fails: with the key absent and the store failing to open, the variable is
  not read and the process does not exit.
\<close>

theorem bootstrap_open_failure_counterexample:
  "exit_status (bootstrap (Some (js ''SQLITE_CANTOPEN: unable to open database file'')) None)
     = None
   \<and> \<not> fatal_without_partial_startup
         (bootstrap (Some (js ''SQLITE_CANTOPEN: unable to open database file'')) None)"
  by (simp add: fatal_without_partial_startup_def bootstrap_def)

end
